theory Spec2Isabelle
  imports Main "HOL-Library.AList" "HOL-Library.Char_ord" "HOL-Library.List_Lexorder"
begin

section \<open>The HTTP control plane of geodns (http/http.go)\<close>

text \<open>
  The three handlers of \<^verbatim>\<open>http.go\<close> (\<^verbatim>\<open>getZones\<close>, \<^verbatim>\<open>getZone\<close>, \<^verbatim>\<open>addZone\<close>), the
  middleware \<^verbatim>\<open>checkToken\<close> and the result of \<^verbatim>\<open>Run\<close> are embedded as functions. The
  handlers work on an explicit world: the zone objects live in a store indexed by addresses
  (the handlers hold \<^verbatim>\<open>*Zone\<close> pointers and \<^verbatim>\<open>addZone\<close> mutates through one), the registry
  maps names to addresses, and the file system maps paths to files. Each handler returns
  the response it sends and the world it leaves.
\<close>

subsection \<open>Library functions used by the handlers\<close>

text \<open>\<^verbatim>\<open>strings.HasPrefix(s, prefix)\<close>:
  \<^verbatim>\<open>len(s) >= len(prefix) && s[:len(prefix)] == prefix\<close>.\<close>

definition HasPrefix :: "string \<Rightarrow> string \<Rightarrow> bool" where
  "HasPrefix s pre = (length s \<ge> length pre \<and> take (length pre) s = pre)"

text \<open>\<^verbatim>\<open>strings.Replace(s, old, new, -1)\<close>: every non-overlapping occurrence of \<open>old\<close>,
  found from the left, is replaced by \<open>new\<close>; there is no limit on their number. For an
  empty \<open>old\<close> Go inserts \<open>new\<close> before every character and at the end (characters are
  bytes here; the handlers only call it with \<^verbatim>\<open>"Bearer "\<close>).\<close>

function strings_Replace_all :: "string \<Rightarrow> string \<Rightarrow> string \<Rightarrow> string" where
  "strings_Replace_all [] old new = (if old = [] then new else [])"
| "strings_Replace_all (c # cs) old new =
     (if old = [] then new @ c # strings_Replace_all cs old new
      else if HasPrefix (c # cs) old
        then new @ strings_Replace_all (drop (length old) (c # cs)) old new
      else c # strings_Replace_all cs old new)"
  by pat_completeness auto
termination
  by (relation "measure (\<lambda>(s, old, new). length s)") (auto simp: Suc_diff_le)

subsection \<open>JSON documents and Go values\<close>

text \<open>A JSON value as the decoder's scanner reads it from the body: the literals, a number
  by the text of its literal, a string by its content, arrays and objects (the members of
  an object in the order of the text, names possibly repeated).\<close>

datatype json_value =
  VNull | VBool bool | VNumber string | VString string
  | VArray "json_value list" | VObject "(string \<times> json_value) list"

text \<open>A finite \<^verbatim>\<open>float64\<close>: the sign, and the magnitude \<open>m * 2 ^ e\<close> with \<open>m\<close> odd
  (\<open>m = 0\<close> and \<open>e = 0\<close> for zero).\<close>

datatype float64 = Float64 bool nat int

text \<open>What \<^verbatim>\<open>encoding/json\<close> stores into an \<^verbatim>\<open>interface{}\<close>: \<^verbatim>\<open>nil\<close>, \<^verbatim>\<open>bool\<close>,
  \<^verbatim>\<open>float64\<close>, \<^verbatim>\<open>string\<close>, \<^verbatim>\<open>[]interface{}\<close> and \<^verbatim>\<open>map[string]interface{}\<close>. The
  entries of a map are listed by ascending key, each key once.\<close>

datatype interface =
  GoNil | GoBool bool | GoFloat64 float64 | GoString string
  | GoSlice "interface list" | GoMap "(string \<times> interface) list"

text \<open>A variable of type \<^verbatim>\<open>map[string]interface{}\<close>: \<open>None\<close> is the nil map.\<close>

type_synonym 'v gomap = "(string \<times> 'v) list option"

text \<open>The entries a \<^verbatim>\<open>range\<close> over the map visits; a nil map has none.\<close>

definition entries :: "'v gomap \<Rightarrow> (string \<rightharpoonup> 'v)" where
  "entries objmap = (case objmap of None \<Rightarrow> Map.empty | Some kvs \<Rightarrow> map_of kvs)"

text \<open>\<^verbatim>\<open>m[k] = v\<close> on the entries of a map.\<close>

fun mapassign :: "string \<Rightarrow> 'a \<Rightarrow> (string \<times> 'a) list \<Rightarrow> (string \<times> 'a) list" where
  "mapassign k v [] = [(k, v)]"
| "mapassign k v ((k', v') # kvs) =
     (if k = k' then (k, v) # kvs
      else if k < k' then (k, v) # (k', v') # kvs
      else (k', v') # mapassign k v kvs)"

text \<open>The map that results from assigning the members of an object in the order of the
  text: a repeated name keeps its last value.\<close>

definition makemap :: "(string \<times> 'a) list \<Rightarrow> (string \<times> 'a) list" where
  "makemap members = foldl (\<lambda>m (k, v). mapassign k v m) [] members"

subsection \<open>Numbers: \<^verbatim>\<open>strconv.ParseFloat\<close>\<close>

text \<open>The decoder stores a number into an \<^verbatim>\<open>interface{}\<close> as the \<^verbatim>\<open>float64\<close> that
  \<^verbatim>\<open>strconv.ParseFloat(s, 64)\<close> returns: the float nearest to the value of the literal,
  a tie to the even mantissa; a value that rounds beyond the largest float is an error.\<close>

definition is_digit :: "char \<Rightarrow> bool" where
  "is_digit ch = (CHR ''0'' \<le> ch \<and> ch \<le> CHR ''9'')"

definition digits_value :: "string \<Rightarrow> nat" where
  "digits_value ds = foldl (\<lambda>n ch. 10 * n + (of_char ch - 48)) 0 ds"

text \<open>The sign, the digits and the decimal exponent of a JSON number literal
  \<^verbatim>\<open>[-] int [. frac] [e|E [+|-] exp]\<close>: its value is the digits times ten to the
  exponent.\<close>

definition literal :: "string \<Rightarrow> bool \<times> nat \<times> int" where
  "literal s =
     (let neg = (take 1 s = ''-'');
          s1 = (if neg then drop 1 s else s);
          ip = takeWhile is_digit s1;
          s2 = dropWhile is_digit s1;
          fp = (if take 1 s2 = ''.'' then takeWhile is_digit (drop 1 s2) else []);
          s3 = (if take 1 s2 = ''.'' then dropWhile is_digit (drop 1 s2) else s2);
          s4 = (if take 1 s3 = ''e'' \<or> take 1 s3 = ''E'' then drop 1 s3 else []);
          eneg = (take 1 s4 = ''-'');
          s5 = (if take 1 s4 = ''-'' \<or> take 1 s4 = ''+'' then drop 1 s4 else s4);
          ex = int (digits_value (takeWhile is_digit s5))
      in (neg, digits_value (ip @ fp), (if eneg then - ex else ex) - int (length fp)))"

text \<open>The number of binary digits of a natural number.\<close>

function bit_length :: "nat \<Rightarrow> nat" where
  "bit_length n = (if n = 0 then 0 else Suc (bit_length (n div 2)))"
  by pat_completeness auto
termination
  by (relation "measure id") auto

declare bit_length.simps [simp del]

text \<open>The integer part of the binary logarithm of \<open>n / d\<close>, for positive \<open>n\<close> and \<open>d\<close>.\<close>

definition floor_log2 :: "nat \<Rightarrow> nat \<Rightarrow> int" where
  "floor_log2 n d =
     (let k = int (bit_length n) - int (bit_length d)
      in if (if k \<ge> 0 then d * 2 ^ nat k \<le> n else d \<le> n * 2 ^ nat (- k)) then k else k - 1)"

text \<open>\<open>n / d\<close> rounded to an integer, a tie to the even one.\<close>

definition round_half_even :: "nat \<Rightarrow> nat \<Rightarrow> nat" where
  "round_half_even n d =
     (let q = n div d; r = n mod d
      in if 2 * r < d then q else if 2 * r > d then Suc q else if even q then q else Suc q)"

text \<open>\<open>m * 2 ^ e\<close> with an odd \<open>m\<close>.\<close>

function odd_part :: "nat \<Rightarrow> int \<Rightarrow> nat \<times> int" where
  "odd_part m e =
     (if m = 0 then (0, 0) else if even m then odd_part (m div 2) (e + 1) else (m, e))"
  by pat_completeness auto
termination
  by (relation "measure fst") auto

declare odd_part.simps [simp del]

text \<open>The float nearest to \<open>n / d\<close>: 53 binary digits, the unit in the last place not
  below \<open>2 ^ - 1074\<close>; \<open>None\<close> when the result is \<open>2 ^ 1024\<close> or more.\<close>

definition nearest_float64 :: "bool \<Rightarrow> nat \<Rightarrow> nat \<Rightarrow> float64 option" where
  "nearest_float64 neg n d =
     (if n = 0 then Some (Float64 neg 0 0)
      else
        let p = max (floor_log2 n d - 52) (- 1074);
            m = (if p \<ge> 0 then round_half_even n (d * 2 ^ nat p)
                 else round_half_even (n * 2 ^ nat (- p)) d)
        in if p \<ge> 0 \<and> m * 2 ^ nat p \<ge> 2 ^ 1024 then None
           else case odd_part m p of (m', p') \<Rightarrow> Some (Float64 neg m' p'))"

text \<open>The float nearest to \<open>m * 10 ^ e\<close>.\<close>

definition decimal_float64 :: "bool \<Rightarrow> nat \<Rightarrow> int \<Rightarrow> float64 option" where
  "decimal_float64 neg m e =
     (if e \<ge> 0 then nearest_float64 neg (m * 10 ^ nat e) 1
      else nearest_float64 neg m (10 ^ nat (- e)))"

definition ParseFloat :: "string \<Rightarrow> float64 option" where
  "ParseFloat s = (case literal s of (neg, m, e) \<Rightarrow> decimal_float64 neg m e)"

subsection \<open>Decoding: \<^verbatim>\<open>json.Decoder.Decode\<close> into an \<^verbatim>\<open>interface{}\<close>\<close>

text \<open>The error is the message of the first \<^verbatim>\<open>UnmarshalTypeError\<close> in the order of the
  text, which is the one the decoder returns.\<close>

fun decode :: "json_value \<Rightarrow> string + interface"
  and decode_elems :: "json_value list \<Rightarrow> string + interface list"
  and decode_fields :: "(string \<times> json_value) list \<Rightarrow> string + (string \<times> interface) list" where
  "decode VNull = Inr GoNil"
| "decode (VBool b) = Inr (GoBool b)"
| "decode (VNumber s) =
     (case ParseFloat s of
        None \<Rightarrow> Inl (''json: cannot unmarshal number '' @ s @ '' into Go value of type float64'')
      | Some f \<Rightarrow> Inr (GoFloat64 f))"
| "decode (VString s) = Inr (GoString s)"
| "decode (VArray xs) =
     (case decode_elems xs of Inl err \<Rightarrow> Inl err | Inr ys \<Rightarrow> Inr (GoSlice ys))"
| "decode (VObject kvs) =
     (case decode_fields kvs of
        Inl err \<Rightarrow> Inl err
      | Inr members \<Rightarrow> Inr (GoMap (makemap members)))"
| "decode_elems [] = Inr []"
| "decode_elems (x # xs) =
     (case decode x of
        Inl err \<Rightarrow> Inl err
      | Inr y \<Rightarrow> (case decode_elems xs of Inl err \<Rightarrow> Inl err | Inr ys \<Rightarrow> Inr (y # ys)))"
| "decode_fields [] = Inr []"
| "decode_fields ((k, v) # kvs) =
     (case decode v of
        Inl err \<Rightarrow> Inl err
      | Inr y \<Rightarrow>
          (case decode_fields kvs of
             Inl err \<Rightarrow> Inl err
           | Inr members \<Rightarrow> Inr ((k, y) # members)))"

subsection \<open>Encoding: \<^verbatim>\<open>json.Marshal\<close>\<close>

text \<open>Numbers. The encoder writes a \<^verbatim>\<open>float64\<close> with
  \<^verbatim>\<open>strconv.AppendFloat(b, f, fmt, -1, 64)\<close>: the shortest decimal that
  \<^verbatim>\<open>ParseFloat\<close> reads back as the same float, in the format \<^verbatim>\<open>'e'\<close> when the magnitude is
  below \<^verbatim>\<open>1e-6\<close> or at least \<^verbatim>\<open>1e21\<close> and in the format \<^verbatim>\<open>'f'\<close> otherwise.\<close>

definition digit :: "nat \<Rightarrow> char" where
  "digit n = ''0123456789'' ! (n mod 10)"

text \<open>The decimal digits of a natural number.\<close>

function decimal :: "nat \<Rightarrow> string" where
  "decimal n = (if n < 10 then [digit n] else decimal (n div 10) @ [digit (n mod 10)])"
  by pat_completeness auto
termination
  by (relation "measure id") auto

declare decimal.simps [simp del]

text \<open>The integer part of the decimal logarithm of \<open>n / d\<close>, for positive \<open>n\<close> and \<open>d\<close>.\<close>

definition floor_log10 :: "nat \<Rightarrow> nat \<Rightarrow> int" where
  "floor_log10 n d =
     (let k = int (length (decimal n)) - int (length (decimal d))
      in if (if k \<ge> 0 then d * 10 ^ nat k \<le> n else d \<le> n * 10 ^ nat (- k)) then k else k - 1)"

text \<open>\<open>m * 10 ^ q\<close> without trailing zeros in \<open>m\<close>.\<close>

function strip_zeros :: "nat \<Rightarrow> int \<Rightarrow> nat \<times> int" where
  "strip_zeros m q = (if m = 0 then (0, 0) else if m mod 10 = 0 then strip_zeros (m div 10) (q + 1) else (m, q))"
  by pat_completeness auto
termination
  by (relation "measure fst") auto

declare strip_zeros.simps [simp del]

text \<open>The two decimals of \<open>k\<close> digits next to \<open>n / d\<close>, as digits and an exponent of
  ten: the one that \<open>ParseFloat\<close> reads as the float \<open>f\<close>, the nearer one if both do.\<close>

definition candidates :: "float64 \<Rightarrow> nat \<Rightarrow> nat \<Rightarrow> nat \<Rightarrow> (nat \<times> int) option" where
  "candidates f n d k =
     (let q = floor_log10 n d - int k + 1;
          num = (if q \<ge> 0 then n else n * 10 ^ nat (- q));
          den = (if q \<ge> 0 then d * 10 ^ nat q else d);
          lo = num div den;
          ok_lo = (decimal_float64 False lo q = Some f);
          ok_hi = (decimal_float64 False (Suc lo) q = Some f)
      in if ok_lo \<and> ok_hi then
           (if 2 * (num mod den) \<le> den then Some (lo, q) else Some (Suc lo, q))
         else if ok_lo then Some (lo, q)
         else if ok_hi then Some (Suc lo, q)
         else None)"

text \<open>The first length, from \<open>k\<close> on, that has such a decimal; seventeen digits always
  have one.\<close>

function shortest_from :: "float64 \<Rightarrow> nat \<Rightarrow> nat \<Rightarrow> nat \<Rightarrow> nat \<times> int" where
  "shortest_from f n d k =
     (case candidates f n d k of
        Some c \<Rightarrow> c
      | None \<Rightarrow> if k < 17 then shortest_from f n d (k + 1) else (n, 0))"
  by pat_completeness auto
termination
  by (relation "measure (\<lambda>(f, n, d, k). 17 - k)") auto

declare shortest_from.simps [simp del]

text \<open>The shortest decimal that \<open>ParseFloat\<close> reads back as the float \<open>m * 2 ^ e\<close>,
  the nearest one among those of this length: its digits and the position of the decimal
  point.\<close>

definition shortest :: "nat \<Rightarrow> int \<Rightarrow> string \<times> int" where
  "shortest m e =
     (let n = (if e \<ge> 0 then m * 2 ^ nat e else m);
          d = (if e \<ge> 0 then 1 else 2 ^ nat (- e))
      in case shortest_from (Float64 False m e) n d 1 of
           (ds, q) \<Rightarrow> (case strip_zeros ds q of (ds', q') \<Rightarrow>
             (decimal ds', int (length (decimal ds')) + q')))"

text \<open>\<^verbatim>\<open>%e\<close> and \<^verbatim>\<open>%f\<close> of \<^verbatim>\<open>strconv\<close> for the digits \<open>ds\<close> with the decimal point after
  the first \<open>dp\<close> of them.\<close>

definition fmtE :: "string \<Rightarrow> int \<Rightarrow> string" where
  "fmtE ds dp =
     (let ex = dp - 1;
          frac = (if length ds > 1 then ''.'' @ drop 1 ds else [])
      in take 1 ds @ frac @ ''e'' @ (if ex < 0 then ''-'' else ''+'')
         @ (if nat \<bar>ex\<bar> < 10 then ''0'' else []) @ decimal (nat \<bar>ex\<bar>))"

definition fmtF :: "string \<Rightarrow> int \<Rightarrow> string" where
  "fmtF ds dp =
     (let ip = (if dp > 0 then take (nat dp) ds @ replicate (nat dp - length ds) CHR ''0''
                else ''0'');
          fp = (if int (length ds) > dp
                then ''.'' @ replicate (nat (- dp)) CHR ''0'' @ drop (nat dp) ds else [])
      in ip @ fp)"

text \<open>The encoder cleans up \<^verbatim>\<open>e-09\<close> to \<^verbatim>\<open>e-9\<close>.\<close>

definition clean_exponent :: "string \<Rightarrow> string" where
  "clean_exponent b =
     (let n = length b in
      if n \<ge> 4 \<and> b ! (n - 4) = CHR ''e'' \<and> (b ! (n - 3) = CHR ''-'' \<or> b ! (n - 3) = CHR ''+'')
         \<and> b ! (n - 2) = CHR ''0''
      then take (n - 2) b @ [b ! (n - 1)] else b)"

text \<open>\<open>m1 * 2 ^ e1 < m2 * 2 ^ e2\<close>.\<close>

definition less_abs :: "nat \<Rightarrow> int \<Rightarrow> nat \<Rightarrow> int \<Rightarrow> bool" where
  "less_abs m1 e1 m2 e2 =
     (if e1 \<ge> e2 then m1 * 2 ^ nat (e1 - e2) < m2 else m1 < m2 * 2 ^ nat (e2 - e1))"

text \<open>The thresholds are the floats \<^verbatim>\<open>1e-6\<close>, which is \<open>4722366482869645 * 2 ^ - 72\<close>,
  and \<^verbatim>\<open>1e21\<close>, which is \<open>476837158203125 * 2 ^ 21\<close>.\<close>

fun floatEncoder :: "float64 \<Rightarrow> string" where
  "floatEncoder (Float64 neg m e) =
     (if neg then ''-'' else []) @
     (if m = 0 then ''0''
      else case shortest m e of (ds, dp) \<Rightarrow>
        if less_abs m e 4722366482869645 (- 72) \<or> \<not> less_abs m e 476837158203125 21
        then clean_exponent (fmtE ds dp)
        else fmtF ds dp)"


text \<open>Strings, as \<^verbatim>\<open>appendString\<close> with \<^verbatim>\<open>escapeHTML\<close> writes them.\<close>

definition hex :: "nat \<Rightarrow> char" where
  "hex n = ''0123456789abcdef'' ! (n mod 16)"

definition between :: "nat \<Rightarrow> char \<Rightarrow> nat \<Rightarrow> bool" where
  "between lo ch hi = (lo \<le> of_char ch \<and> of_char ch \<le> hi)"

text \<open>The length of the UTF-8 sequence at the head of a string, 0 when there is none
  (\<^verbatim>\<open>utf8.DecodeRuneInString\<close> then returns \<^verbatim>\<open>RuneError\<close> with size 1).\<close>

definition utf8_size :: "string \<Rightarrow> nat" where
  "utf8_size s =
     (case s of
        [] \<Rightarrow> 0
      | c0 # r \<Rightarrow>
          if between 0xC2 c0 0xDF then
            (case r of c1 # _ \<Rightarrow> if between 0x80 c1 0xBF then 2 else 0 | _ \<Rightarrow> 0)
          else if between 0xE0 c0 0xEF then
            (case r of
               c1 # c2 # _ \<Rightarrow>
                 if between (if c0 = CHR 0xE0 then 0xA0 else 0x80) c1
                      (if c0 = CHR 0xED then 0x9F else 0xBF) \<and> between 0x80 c2 0xBF
                 then 3 else 0
             | _ \<Rightarrow> 0)
          else if between 0xF0 c0 0xF4 then
            (case r of
               c1 # c2 # c3 # _ \<Rightarrow>
                 if between (if c0 = CHR 0xF0 then 0x90 else 0x80) c1
                      (if c0 = CHR 0xF4 then 0x8F else 0xBF)
                    \<and> between 0x80 c2 0xBF \<and> between 0x80 c3 0xBF
                 then 4 else 0
             | _ \<Rightarrow> 0)
          else 0)"

definition htmlSafe :: "char \<Rightarrow> bool" where
  "htmlSafe ch = (between 0x20 ch 0x7F \<and> ch \<notin> {CHR 0x22, CHR ''&'', CHR ''<'', CHR ''>'', CHR 0x5C})"

definition escape :: "char \<Rightarrow> string" where
  "escape ch =
     (if ch = CHR 0x5C \<or> ch = CHR 0x22 then [CHR 0x5C, ch]
      else if ch = CHR 0x08 then [CHR 0x5C, CHR ''b'']
      else if ch = CHR 0x0C then [CHR 0x5C, CHR ''f'']
      else if ch = CHR 0x0A then [CHR 0x5C, CHR ''n'']
      else if ch = CHR 0x0D then [CHR 0x5C, CHR ''r'']
      else if ch = CHR 0x09 then [CHR 0x5C, CHR ''t'']
      else [CHR 0x5C, CHR ''u'', CHR ''0'', CHR ''0'', hex (of_char ch div 16), hex (of_char ch)])"

function escaped :: "string \<Rightarrow> string" where
  "escaped [] = []"
| "escaped (ch # cs) =
     (if between 0 ch 0x7F then (if htmlSafe ch then [ch] else escape ch) @ escaped cs
      else if utf8_size (ch # cs) = 0 then [CHR 0x5C] @ ''ufffd'' @ escaped cs
      else if take 3 (ch # cs) = [CHR 0xE2, CHR 0x80, CHR 0xA8] then
        [CHR 0x5C] @ ''u2028'' @ escaped (drop 3 (ch # cs))
      else if take 3 (ch # cs) = [CHR 0xE2, CHR 0x80, CHR 0xA9] then
        [CHR 0x5C] @ ''u2029'' @ escaped (drop 3 (ch # cs))
      else take (utf8_size (ch # cs)) (ch # cs) @ escaped (drop (utf8_size (ch # cs)) (ch # cs)))"
  by pat_completeness auto
termination
  by (relation "measure length") auto

definition appendString :: "string \<Rightarrow> string" where
  "appendString src = [CHR 0x22] @ escaped src @ [CHR 0x22]"

text \<open>Values. A map is written with its keys in ascending order.\<close>

fun encode :: "interface \<Rightarrow> string"
  and encode_elems :: "interface list \<Rightarrow> string"
  and encode_fields :: "(string \<times> interface) list \<Rightarrow> string" where
  "encode GoNil = ''null''"
| "encode (GoBool b) = (if b then ''true'' else ''false'')"
| "encode (GoFloat64 f) = floatEncoder f"
| "encode (GoString s) = appendString s"
| "encode (GoSlice xs) = ''['' @ encode_elems xs @ '']''"
| "encode (GoMap kvs) = ''{'' @ encode_fields kvs @ ''}''"
| "encode_elems [] = []"
| "encode_elems (x # xs) = encode x @ (if xs = [] then [] else '','' @ encode_elems xs)"
| "encode_fields [] = []"
| "encode_fields ((k, v) # kvs) =
     appendString k @ '':'' @ encode v @ (if kvs = [] then [] else '','' @ encode_fields kvs)"

text \<open>\<^verbatim>\<open>json.Marshal(objmap)\<close> for an \<open>objmap\<close> of type \<^verbatim>\<open>map[string]interface{}\<close>: a nil
  map is written as \<^verbatim>\<open>null\<close>. The values the decoder produces have no encoding error.\<close>

definition json_Marshal :: "interface gomap \<Rightarrow> string + string" where
  "json_Marshal objmap =
     (case objmap of None \<Rightarrow> Inr ''null'' | Some kvs \<Rightarrow> Inr (encode (GoMap kvs)))"

subsection \<open>Zones, the registry and the file system\<close>

text \<open>Modelled from the spec: the type \<^verbatim>\<open>zones.Zone\<close> is not in \<^verbatim>\<open>http.go\<close>. The spec
  says a zone is identified by its name and holds an opaque structured document, a mapping
  from string keys to JSON-representable values; \<open>'v\<close> is the type of these values
  (Go's \<^verbatim>\<open>interface{}\<close> as the decoder fills it).\<close>

record 'v Zone =
  zone_name :: string
  document :: "string \<rightharpoonup> 'v"

text \<open>A file has its bytes and its permission bits.\<close>

record os_file =
  data :: string
  mode :: nat

text \<open>How a call of \<^verbatim>\<open>os.WriteFile\<close> on a path goes wrong: the open fails and the file
  is untouched, or the open (with \<^verbatim>\<open>O_CREATE|O_TRUNC\<close>) succeeds and the write or the close
  fails after some bytes have reached the file.\<close>

datatype fault = OpenError string | WriteError nat string

text \<open>The world of the handlers. \<open>heap\<close> holds the zone objects, \<open>next_addr\<close> is the
  first address not allocated yet, \<open>zonelist\<close> is the registry of the \<^verbatim>\<open>MuxManager\<close>
  (name to \<^verbatim>\<open>*Zone\<close>; the order of the list stands for one iteration order of the Go map),
  \<open>files\<close> is the file system and \<open>faults\<close> says on which paths a write fails, and how;
  no handler changes \<open>faults\<close>.\<close>

record 'v world =
  heap :: "nat \<Rightarrow> 'v Zone"
  next_addr :: nat
  zonelist :: "(string \<times> nat) list"
  files :: "string \<rightharpoonup> os_file"
  faults :: "string \<rightharpoonup> fault"

text \<open>Modelled from the spec: \<^verbatim>\<open>MuxManager.Zones()\<close> is not in \<^verbatim>\<open>http.go\<close>. The spec gives
  the registry an atomic lookup by name and a snapshot of all names.\<close>

definition Zones :: "'v world \<Rightarrow> (string \<times> nat) list" where
  "Zones w = zonelist w"

text \<open>Modelled from the spec: \<^verbatim>\<open>zones.NewZone\<close> is not in \<^verbatim>\<open>http.go\<close>. The spec says it
  constructs a new empty zone object bound to the name, without touching the registry. The
  object gets the next free address.\<close>

definition NewZone :: "string \<Rightarrow> 'v world \<Rightarrow> nat \<times> 'v world" where
  "NewZone name w =
     (next_addr w,
      w\<lparr>heap := (heap w)(next_addr w := \<lparr>zone_name = name, document = Map.empty\<rparr>),
        next_addr := Suc (next_addr w)\<rparr>)"

text \<open>Modelled from the spec: \<^verbatim>\<open>Zone.ReadZoneJson\<close> is not in \<^verbatim>\<open>http.go\<close>. The spec says it
  applies the decoded document onto the zone object, merging and overwriting its
  configuration fields, and that it mutates the object in place. The decoded document
  itself stays as it is.\<close>

definition ReadZoneJson :: "nat \<Rightarrow> 'v gomap \<Rightarrow> 'v world \<Rightarrow> 'v world" where
  "ReadZoneJson zone objmap w =
     w\<lparr>heap := (heap w)
        (zone := (heap w zone)\<lparr>document := document (heap w zone) ++ entries objmap\<rparr>)\<rparr>"

text \<open>Modelled from the spec: \<^verbatim>\<open>MuxManager.AddHandler\<close> is not in \<^verbatim>\<open>http.go\<close>. The spec
  says it upserts the zone object into the registry under its name.\<close>

definition AddHandler :: "string \<Rightarrow> nat \<Rightarrow> 'v world \<Rightarrow> 'v world" where
  "AddHandler name zone w = w\<lparr>zonelist := AList.update name zone (zonelist w)\<rparr>"

text \<open>\<^verbatim>\<open>os.WriteFile(name, data, perm)\<close> opens the file with
  \<^verbatim>\<open>O_WRONLY|O_CREATE|O_TRUNC\<close>, writes and closes. A file that does not exist is created
  with mode \<open>perm\<close> (before umask); one that exists is truncated and keeps its mode.\<close>

definition os_WriteFile :: "string \<Rightarrow> string \<Rightarrow> nat \<Rightarrow> 'v world \<Rightarrow> string option \<times> 'v world" where
  "os_WriteFile name bytes perm w =
     (let opened = (case files w name of None \<Rightarrow> \<lparr>data = [], mode = perm\<rparr>
                                       | Some f \<Rightarrow> f\<lparr>data := []\<rparr>)
      in case faults w name of
           Some (OpenError err) \<Rightarrow> (Some err, w)
         | Some (WriteError n err) \<Rightarrow>
             (Some err, w\<lparr>files := (files w)(name \<mapsto> opened\<lparr>data := take n bytes\<rparr>)\<rparr>)
         | None \<Rightarrow> (None, w\<lparr>files := (files w)(name \<mapsto> opened\<lparr>data := bytes\<rparr>)\<rparr>))"

subsection \<open>Requests and responses\<close>

text \<open>The body of a request, as the scanner of \<^verbatim>\<open>encoding/json\<close> sees it: the bytes do not
  begin with a complete JSON value (the message is the decoder's: a syntax error,
  \<^verbatim>\<open>EOF\<close> for an empty body), or they begin with a value, followed by the bytes that
  \<^verbatim>\<open>Decode\<close> leaves unread.\<close>

datatype body = NoValue string | Value json_value string

text \<open>What a handler reads from the \<^verbatim>\<open>gin.Context\<close>: the request headers, the path
  parameters and the body.\<close>

record gin_Context =
  header :: "string \<rightharpoonup> string"
  params :: "string \<rightharpoonup> string"
  body :: body

text \<open>\<^verbatim>\<open>c.GetHeader(key)\<close> and \<^verbatim>\<open>c.Param(key)\<close> return the empty string when there is no
  such header or parameter.\<close>

definition GetHeader :: "gin_Context \<Rightarrow> string \<Rightarrow> string" where
  "GetHeader c key = (case header c key of None \<Rightarrow> [] | Some v \<Rightarrow> v)"

definition Param :: "gin_Context \<Rightarrow> string \<Rightarrow> string" where
  "Param c key = (case params c key of None \<Rightarrow> [] | Some v \<Rightarrow> v)"

text \<open>The message of the \<^verbatim>\<open>UnmarshalTypeError\<close> for a value that cannot be stored into a
  \<^verbatim>\<open>map[string]interface{}\<close>.\<close>

definition cannot_unmarshal :: "string \<Rightarrow> string" where
  "cannot_unmarshal v =
     ''json: cannot unmarshal '' @ v @ '' into Go value of type map[string]interface {}''"

text \<open>\<^verbatim>\<open>c.ShouldBindJSON(&objmap)\<close> for a nil \<^verbatim>\<open>objmap\<close> of type
  \<^verbatim>\<open>map[string]interface{}\<close>: gin decodes the first value of the body with
  \<^verbatim>\<open>json.NewDecoder(body).Decode(&objmap)\<close> and does not look at what follows it. An
  object fills the map, \<^verbatim>\<open>null\<close> leaves the map nil without an error, every other value
  is an \<^verbatim>\<open>UnmarshalTypeError\<close>. The result is the message of the error, or the map.\<close>

definition ShouldBindJSON :: "gin_Context \<Rightarrow> string + interface gomap" where
  "ShouldBindJSON c =
     (case body c of
        NoValue err \<Rightarrow> Inl err
      | Value v rest \<Rightarrow>
          (case v of
             VNull \<Rightarrow> Inr None
           | VBool b \<Rightarrow> Inl (cannot_unmarshal ''bool'')
           | VNumber s \<Rightarrow> Inl (cannot_unmarshal ''number'')
           | VString s \<Rightarrow> Inl (cannot_unmarshal ''string'')
           | VArray xs \<Rightarrow> Inl (cannot_unmarshal ''array'')
           | VObject kvs \<Rightarrow>
               (case decode_fields kvs of
                  Inl err \<Rightarrow> Inl err
                | Inr members \<Rightarrow> Inr (Some (makemap members)))))"

text \<open>The values the handlers put into a \<^verbatim>\<open>gin.H\<close>: booleans, strings, the list of zone
  names and a zone. A \<^verbatim>\<open>gin.H\<close> literal is the list of its fields.\<close>

datatype 'v any = JBool bool | JString string | JStrings "string list" | JZone "'v Zone"

type_synonym 'v H = "(string \<times> 'v any) list"

record 'v response =
  status :: nat
  payload :: "'v H"

text \<open>\<^verbatim>\<open>c.JSON(code, obj)\<close> and \<^verbatim>\<open>c.AbortWithStatusJSON(code, obj)\<close> send the same
  response; the second one also stops the handler chain.\<close>

definition JSON :: "nat \<Rightarrow> 'v H \<Rightarrow> 'v response" where
  "JSON code obj = \<lparr>status = code, payload = obj\<rparr>"

definition StatusOK :: nat where "StatusOK = 200"
definition StatusBadRequest :: nat where "StatusBadRequest = 400"
definition StatusUnauthorized :: nat where "StatusUnauthorized = 401"
definition StatusNotFound :: nat where "StatusNotFound = 404"

subsection \<open>The server and its handlers\<close>

text \<open>Of the fields of \<^verbatim>\<open>httpServer\<close> the handlers read \<^verbatim>\<open>zones\<close>, whose state is in the
  world, and \<^verbatim>\<open>zonePath\<close>.\<close>

record httpServer =
  zonePath :: string

text \<open>\<^verbatim>\<open>checkToken\<close>. \<open>Token\<close> is \<^verbatim>\<open>appconfig.Config.HTTP.Token\<close>. The result is the
  response of \<^verbatim>\<open>AbortWithStatusJSON\<close>, or \<open>None\<close> when the middleware calls \<^verbatim>\<open>c.Next()\<close>.\<close>

definition checkToken :: "string \<Rightarrow> gin_Context \<Rightarrow> 'v response option" where
  "checkToken Token c =
     (let authHeader = GetHeader c ''Authorization'' in
      if \<not> HasPrefix authHeader ''Bearer'' then
        Some (JSON StatusUnauthorized
          [(''success'', JBool False), (''error'', JString ''Authorization header is missing'')])
      else
        let token = strings_Replace_all authHeader ''Bearer '' [] in
        if token \<noteq> Token then
          Some (JSON StatusUnauthorized
            [(''success'', JBool False), (''error'', JString ''Unauthorized (401)'')])
        else None)"

text \<open>\<^verbatim>\<open>getZones\<close>: the keys of the registry, without those equal to \<^verbatim>\<open>"pgeodns"\<close>
  (\<^verbatim>\<open>slices.DeleteFunc\<close> removes every element the predicate holds for).\<close>

definition getZones :: "httpServer \<Rightarrow> gin_Context \<Rightarrow> 'v world \<Rightarrow> 'v response \<times> 'v world" where
  "getZones hs c w =
     (let zones = Zones w;
          keys = map fst zones;
          keys = filter (\<lambda>key. \<not> (key = ''pgeodns'')) keys
      in (JSON StatusOK [(''success'', JBool True), (''result'', JStrings keys)], w))"

text \<open>\<^verbatim>\<open>getZone\<close>: the zone the registry has under the path parameter, as it is in memory
  when the response is written.\<close>

definition getZone :: "httpServer \<Rightarrow> gin_Context \<Rightarrow> 'v world \<Rightarrow> 'v response \<times> 'v world" where
  "getZone hs c w =
     (let zoneName = Param c ''zone'' in
      case map_of (Zones w) zoneName of
        Some zone \<Rightarrow>
          (JSON StatusOK [(''success'', JBool True), (''result'', JZone (heap w zone))], w)
      | None \<Rightarrow>
          (JSON StatusNotFound
             [(''success'', JBool False), (''error'', JString ''Zone not found'')], w))"

text \<open>\<^verbatim>\<open>addZone\<close>. \<open>Marshal\<close> stands for \<^verbatim>\<open>json.Marshal\<close> on documents, the error
  message or the bytes: the handler is given its encoder, so that what is proved of it
  holds whatever the encoder writes; Go's encoder is \<open>json_Marshal\<close>. The file mode
  \<^verbatim>\<open>0644\<close> is octal.\<close>

definition addZone ::
  "(interface gomap \<Rightarrow> string + string) \<Rightarrow> httpServer \<Rightarrow> gin_Context \<Rightarrow> interface world
     \<Rightarrow> interface response \<times> interface world" where
  "addZone Marshal hs c w =
     (let zoneName = Param c ''zone'';
          (zone, w1) = (case map_of (Zones w) zoneName of
                          Some zone \<Rightarrow> (zone, w)
                        | None \<Rightarrow> NewZone zoneName w)
      in case ShouldBindJSON c of
           Inl err \<Rightarrow>
             (JSON StatusBadRequest [(''success'', JBool False), (''error'', JString err)], w1)
         | Inr objmap \<Rightarrow>
             let w2 = ReadZoneJson zone objmap w1 in
             (case Marshal objmap of
                Inl err \<Rightarrow>
                  (JSON StatusBadRequest
                     [(''success'', JBool False), (''error'', JString err)], w2)
              | Inr bytes \<Rightarrow>
                  (case os_WriteFile (zonePath hs @ zoneName @ ''.json'') bytes
                          (6 * 8 ^ 2 + 4 * 8 + 4) w2 of
                     (Some err, w3) \<Rightarrow>
                       (JSON StatusBadRequest
                          [(''success'', JBool False), (''error'', JString err)], w3)
                   | (None, w3) \<Rightarrow>
                       (JSON StatusOK
                          [(''success'', JBool True),
                           (''result'', JString ''Zone created successfully'')],
                        AddHandler zoneName zone w3))))"

text \<open>The routes of \<^verbatim>\<open>NewHTTPServer\<close>: \<^verbatim>\<open>GET /zone\<close>, \<^verbatim>\<open>GET /zone/:zone\<close> and
  \<^verbatim>\<open>POST /zone/:zone\<close>, all in the group that runs \<^verbatim>\<open>checkToken\<close> first.\<close>

datatype route = GET_zone | GET_zone_name | POST_zone_name

definition serve ::
  "string \<Rightarrow> (interface gomap \<Rightarrow> string + string) \<Rightarrow> httpServer \<Rightarrow> route \<Rightarrow> gin_Context
     \<Rightarrow> interface world \<Rightarrow> interface response \<times> interface world" where
  "serve Token Marshal hs r c w =
     (case checkToken Token c of
        Some resp \<Rightarrow> (resp, w)
      | None \<Rightarrow>
          (case r of
             GET_zone \<Rightarrow> getZones hs c w
           | GET_zone_name \<Rightarrow> getZone hs c w
           | POST_zone_name \<Rightarrow> addZone Marshal hs c w))"

subsection \<open>The result of \<^verbatim>\<open>Run\<close>\<close>





subsection \<open>Notions used in the statements\<close>

text \<open>Every pointer in the registry is an allocated object. Go guarantees it; the model
  keeps it as an invariant of the world.\<close>

definition registry_ok :: "'v world \<Rightarrow> bool" where
  "registry_ok w = list_all (\<lambda>(name, zone). zone < next_addr w) (zonelist w)"

text \<open>The message of the error \<^verbatim>\<open>os.WriteFile\<close> returns.\<close>

primrec fault_message :: "fault \<Rightarrow> string" where
  "fault_message (OpenError err) = err"
| "fault_message (WriteError n err) = err"

text \<open>The shape of a response body: the fields have distinct names, \<^verbatim>\<open>success\<close> is a
  boolean, a true one comes with \<^verbatim>\<open>result\<close> and without \<^verbatim>\<open>error\<close>, a false one with
  \<^verbatim>\<open>error\<close> and without \<^verbatim>\<open>result\<close>.\<close>

definition envelope :: "'v H \<Rightarrow> bool" where
  "envelope obj =
     (distinct (map fst obj) \<and>
      (case map_of obj ''success'' of
         Some (JBool True) \<Rightarrow> map_of obj ''result'' \<noteq> None \<and> map_of obj ''error'' = None
       | Some (JBool False) \<Rightarrow> map_of obj ''error'' \<noteq> None \<and> map_of obj ''result'' = None
       | _ \<Rightarrow> False))"

subsection \<open>Example data\<close>

text \<open>A server that stores its zones under \<^verbatim>\<open>/zones/\<close>, and one whose configured path
  lacks the trailing separator.\<close>

definition example_server :: httpServer where
  "example_server = \<lparr>zonePath = ''/zones/''\<rparr>"

definition example_server_no_slash :: httpServer where
  "example_server_no_slash = \<lparr>zonePath = ''/zones''\<rparr>"

definition blank_heap :: "nat \<Rightarrow> interface Zone" where
  "blank_heap a = \<lparr>zone_name = [], document = Map.empty\<rparr>"

text \<open>The world of a server that has no zone yet and a healthy disk.\<close>

definition empty_world :: "interface world" where
  "empty_world =
     \<lparr>heap = blank_heap, next_addr = 0, zonelist = [], files = Map.empty, faults = Map.empty\<rparr>"

text \<open>A world in which \<^verbatim>\<open>example.com\<close> is served with an empty document and
  \<^verbatim>\<open>/zones/example.com.json\<close> cannot be opened for writing.\<close>

definition readonly_world :: "interface world" where
  "readonly_world =
     \<lparr>heap = blank_heap(0 := \<lparr>zone_name = ''example.com'', document = Map.empty\<rparr>),
      next_addr = 1,
      zonelist = [(''example.com'', 0)],
      files = Map.empty,
      faults = [''/zones/example.com.json'' \<mapsto> OpenError ''permission denied'']\<rparr>"

text \<open>A world without zones in which the write to \<^verbatim>\<open>/zones/example.com.json\<close> fails
  before any byte reaches the file.\<close>

definition full_disk_world :: "interface world" where
  "full_disk_world =
     \<lparr>heap = blank_heap, next_addr = 0, zonelist = [], files = Map.empty,
      faults = [''/zones/example.com.json'' \<mapsto> WriteError 0 ''no space left on device'']\<rparr>"

text \<open>Requests for the zone \<^verbatim>\<open>example.com\<close> with a given body.\<close>

definition example_request :: "body \<Rightarrow> gin_Context" where
  "example_request b =
     \<lparr>header = [''Authorization'' \<mapsto> ''Bearer secret''],
      params = [''zone'' \<mapsto> ''example.com''],
      body = b\<rparr>"

text \<open>\<^verbatim>\<open>POST /zone/example.com\<close> with the body \<^verbatim>\<open>{"ttl":120}\<close>; with the body \<^verbatim>\<open>[]\<close>;
  with the body \<^verbatim>\<open>null\<close>; with the body \<^verbatim>\<open>{"ttl":120}]]] not json\<close>; with the bodies
  \<^verbatim>\<open>{"ttl":9007199254740993}\<close> and \<^verbatim>\<open>{"ttl":9007199254740992}\<close>; and
  \<^verbatim>\<open>GET /zone/example.com\<close>, which has no body.\<close>

definition example_post :: gin_Context where
  "example_post = example_request (Value (VObject [(''ttl'', VNumber ''120'')]) [])"

definition example_bad_post :: gin_Context where
  "example_bad_post = example_request (Value (VArray []) [])"

definition null_post :: gin_Context where
  "null_post = example_request (Value VNull [])"

definition trailing_post :: gin_Context where
  "trailing_post =
     example_request (Value (VObject [(''ttl'', VNumber ''120'')]) '']]] not json'')"

definition big_post :: gin_Context where
  "big_post = example_request (Value (VObject [(''ttl'', VNumber ''9007199254740993'')]) [])"

definition even_post :: gin_Context where
  "even_post = example_request (Value (VObject [(''ttl'', VNumber ''9007199254740992'')]) [])"

definition example_get :: gin_Context where
  "example_get = example_request (NoValue ''EOF'')"

text \<open>The number 120 as a \<^verbatim>\<open>float64\<close>, and the number \<open>2 ^ 53\<close>.\<close>

definition float_120 :: interface where
  "float_120 = GoFloat64 (Float64 False 15 3)"

definition float_2_53 :: interface where
  "float_2_53 = GoFloat64 (Float64 False 1 53)"

text \<open>Requests that present the header value \<open>h\<close>.\<close>

definition with_Authorization :: "string \<Rightarrow> gin_Context" where
  "with_Authorization h =
     \<lparr>header = [''Authorization'' \<mapsto> h], params = Map.empty, body = NoValue ''EOF''\<rparr>"


section \<open>Properties\<close>

subsection \<open>Helper facts\<close>

lemma registry_ok_lookup:
  "registry_ok w \<Longrightarrow> map_of (zonelist w) name = Some a \<Longrightarrow> a < next_addr w"
  by (auto simp: registry_ok_def list_all_iff dest!: map_of_SomeD)

lemma getZone_same:
  assumes "zonelist w' = zonelist w"
    and "\<And>name a. map_of (zonelist w) name = Some a \<Longrightarrow> heap w' a = heap w a"
  shows "fst (getZone hs c w') = fst (getZone hs c w)"
  using assms by (simp add: getZone_def Zones_def split: option.splits)

lemma getZones_same:
  "zonelist w' = zonelist w \<Longrightarrow> fst (getZones hs c w') = fst (getZones hs c w)"
  by (simp add: getZones_def Zones_def)

lemma envelope_result: "envelope [(''success'', JBool True), (''result'', x)]"
  by (simp add: envelope_def)

lemma envelope_error: "envelope [(''success'', JBool False), (''error'', x)]"
  by (simp add: envelope_def)

lemma checkToken_envelope: "checkToken T c = Some r \<Longrightarrow> envelope (payload r)"
  by (auto simp: checkToken_def JSON_def Let_def envelope_error split: if_splits)

lemma getZones_envelope: "envelope (payload (fst (getZones hs c w)))"
  by (simp add: getZones_def JSON_def envelope_result)

lemma getZone_envelope: "envelope (payload (fst (getZone hs c w)))"
  by (simp add: getZone_def JSON_def envelope_result envelope_error split: option.splits)

lemma addZone_envelope: "envelope (payload (fst (addZone M hs c w)))"
  by (simp add: addZone_def JSON_def Let_def envelope_result envelope_error
      split: option.splits sum.splits prod.splits)

lemmas addZone_defs = addZone_def NewZone_def ReadZoneJson_def
  os_WriteFile_def AddHandler_def Zones_def JSON_def StatusOK_def StatusBadRequest_def Let_def

lemma map_add_twice: "(m ++ d) ++ d = m ++ d"
  by (simp add: map_add_def fun_eq_iff split: option.splits)

lemma map_add_self: "(d :: 'a \<rightharpoonup> 'b) ++ d = d"
  by (simp add: map_add_def fun_eq_iff split: option.splits)

text \<open>The invariant of the registry holds when the server starts and every request keeps it.\<close>

lemma registry_ok_update:
  "list_all (\<lambda>(name, zone). zone < n) zl \<Longrightarrow> a < n \<Longrightarrow>
   list_all (\<lambda>(name, zone). zone < n) (AList.update k a zl)"
  by (induction zl) auto

lemma registry_ok_mono:
  "list_all (\<lambda>(name, zone). zone < n) zl \<Longrightarrow> n \<le> m \<Longrightarrow>
   list_all (\<lambda>(name, zone :: nat). zone < m) zl"
  by (induction zl) auto

lemma registry_ok_empty_world: "registry_ok empty_world"
  by (simp add: registry_ok_def empty_world_def)

lemma addZone_registry_ok:
  assumes "registry_ok w"
  shows "registry_ok (snd (addZone M hs c w))"
proof (cases "map_of (zonelist w) (Param c ''zone'')")
  case None
  have "list_all (\<lambda>(name, zone). zone < Suc (next_addr w)) (zonelist w)"
    using assms registry_ok_mono [of "next_addr w" "zonelist w" "Suc (next_addr w)"]
    by (simp add: registry_ok_def)
  with None show ?thesis
    by (simp add: registry_ok_def addZone_defs registry_ok_update
        split: option.splits prod.splits sum.splits fault.splits)
next
  case (Some a)
  with assms have "a < next_addr w" by (rule registry_ok_lookup)
  with Some assms show ?thesis
    by (simp add: registry_ok_def addZone_defs registry_ok_update
        split: option.splits prod.splits sum.splits fault.splits)
qed

lemma serve_registry_ok:
  "registry_ok w \<Longrightarrow> registry_ok (snd (serve Token M hs r c w))"
  by (simp add: serve_def getZones_def getZone_def addZone_registry_ok
      split: option.splits route.splits)

text \<open>A second identical post. When the name was in the registry, or the first post has
  put it there, the second post answers the same and leaves the world as it found it.
  Otherwise the first post has failed and left an unreachable object behind; the second
  one leaves another.\<close>

lemma addZone_again_present:
  assumes "ShouldBindJSON c = Inr objmap" and "map_of (zonelist w) (Param c ''zone'') = Some a"
  shows "addZone M hs c (snd (addZone M hs c w)) = addZone M hs c w"
proof (cases "M objmap")
  case (Inl e)
  with assms show ?thesis by (simp add: addZone_defs map_add_twice)
next
  case (Inr bytes)
  show ?thesis
  proof (cases "faults w (zonePath hs @ Param c ''zone'' @ ''.json'')")
    case None
    with assms Inr show ?thesis
      by (simp add: addZone_defs map_add_twice AList.update_conv' AList.update_triv
          split: option.splits)
  next
    case (Some f)
    with assms Inr show ?thesis
      by (cases f) (simp_all add: addZone_defs map_add_twice split: option.splits)
  qed
qed

lemma addZone_again_created:
  assumes "ShouldBindJSON c = Inr objmap" and "map_of (zonelist w) (Param c ''zone'') = None"
    and "status (fst (addZone M hs c w)) = 200"
  shows "addZone M hs c (snd (addZone M hs c w)) = addZone M hs c w"
proof (cases "M objmap")
  case (Inl e)
  with assms show ?thesis by (simp add: addZone_defs)
next
  case (Inr bytes)
  show ?thesis
  proof (cases "faults w (zonePath hs @ Param c ''zone'' @ ''.json'')")
    case None
    with assms Inr show ?thesis
      by (simp add: addZone_defs map_add_self AList.update_conv')
  next
    case (Some f)
    with assms Inr show ?thesis
      by (cases f) (simp_all add: addZone_defs)
  qed
qed

lemma addZone_again_absent:
  assumes "ShouldBindJSON c = Inr objmap" and "map_of (zonelist w) (Param c ''zone'') = None"
    and "status (fst (addZone M hs c w)) \<noteq> 200"
  shows "fst (addZone M hs c (snd (addZone M hs c w))) = fst (addZone M hs c w)
     \<and> files (snd (addZone M hs c (snd (addZone M hs c w)))) = files (snd (addZone M hs c w))
     \<and> zonelist (snd (addZone M hs c (snd (addZone M hs c w)))) = zonelist w
     \<and> zonelist (snd (addZone M hs c w)) = zonelist w
     \<and> (\<forall>a<next_addr w.
           heap (snd (addZone M hs c (snd (addZone M hs c w)))) a = heap (snd (addZone M hs c w)) a)"
proof (cases "M objmap")
  case (Inl e)
  with assms show ?thesis by (simp add: addZone_defs)
next
  case (Inr bytes)
  show ?thesis
  proof (cases "faults w (zonePath hs @ Param c ''zone'' @ ''.json'')")
    case None
    with assms Inr show ?thesis by (simp add: addZone_defs)
  next
    case (Some f)
    with assms Inr show ?thesis
      by (cases f) (simp_all add: addZone_defs split: option.splits)
  qed
qed

text \<open>After a successful post, the same post on a disk whose faults have changed but
  which still takes the write: the same answer, and nothing else in the world changes.\<close>

lemma addZone_again_other_disk:
  assumes "ShouldBindJSON c = Inr objmap" and "status (fst (addZone M hs c w)) = 200"
    and "fs (zonePath hs @ Param c ''zone'' @ ''.json'') = None"
  shows "addZone M hs c ((snd (addZone M hs c w))\<lparr>faults := fs\<rparr>) =
           (fst (addZone M hs c w), (snd (addZone M hs c w))\<lparr>faults := fs\<rparr>)"
proof (cases "M objmap")
  case (Inl e)
  with assms show ?thesis by (simp add: addZone_defs split: option.splits prod.splits)
next
  case (Inr bytes)
  show ?thesis
  proof (cases "faults w (zonePath hs @ Param c ''zone'' @ ''.json'')")
    case None
    with assms Inr show ?thesis
      by (cases "map_of (zonelist w) (Param c ''zone'')")
        (simp_all add: addZone_defs map_add_self map_add_twice AList.update_conv'
          AList.update_triv)
  next
    case (Some f)
    with assms Inr show ?thesis
      by (cases f) (simp_all add: addZone_defs split: option.splits prod.splits)
  qed
qed

text \<open>The examples, evaluated.\<close>

lemmas float_eval = ParseFloat_def literal_def is_digit_def digits_value_def decimal_float64_def
  nearest_float64_def floor_log2_def bit_length.simps round_half_even_def odd_part.simps Let_def

lemmas format_eval = digit_def shortest_def shortest_from.simps candidates_def floor_log10_def
  decimal.simps strip_zeros.simps fmtE_def fmtF_def clean_exponent_def less_abs_def
  decimal_float64_def nearest_float64_def floor_log2_def bit_length.simps round_half_even_def
  odd_part.simps Let_def

lemma decode_120: "decode (VNumber ''120'') = Inr float_120"
  by (simp add: float_120_def float_eval)

lemma decode_2_53_plus_1: "decode (VNumber ''9007199254740993'') = Inr float_2_53"
  by (simp add: float_2_53_def float_eval)

lemma decode_2_53: "decode (VNumber ''9007199254740992'') = Inr float_2_53"
  by (simp add: float_2_53_def float_eval)

lemma encode_120: "encode float_120 = ''120''"
  by (simp add: float_120_def format_eval)

lemma encode_2_53: "encode float_2_53 = ''9007199254740992''"
  by (simp add: float_2_53_def format_eval)

lemma appendString_ttl: \<open>appendString ''ttl'' = ''"ttl"''\<close>
  by (simp add: appendString_def htmlSafe_def between_def)

lemma example_params:
  "Param (example_request b) ''zone'' = ''example.com''"
  "body (example_request b) = b"
  by (simp_all add: Param_def example_request_def)

lemma example_zone:
  "Param example_post ''zone'' = ''example.com''"
  "Param example_bad_post ''zone'' = ''example.com''"
  "Param null_post ''zone'' = ''example.com''"
  "Param trailing_post ''zone'' = ''example.com''"
  "Param big_post ''zone'' = ''example.com''"
  "Param even_post ''zone'' = ''example.com''"
  "Param example_get ''zone'' = ''example.com''"
  by (simp_all add: example_params example_post_def example_bad_post_def null_post_def
      trailing_post_def big_post_def even_post_def example_get_def)

lemma example_binds:
  "ShouldBindJSON example_post = Inr (Some [(''ttl'', float_120)])"
  "ShouldBindJSON trailing_post = Inr (Some [(''ttl'', float_120)])"
  "ShouldBindJSON big_post = Inr (Some [(''ttl'', float_2_53)])"
  "ShouldBindJSON even_post = Inr (Some [(''ttl'', float_2_53)])"
  "ShouldBindJSON null_post = Inr None"
  "ShouldBindJSON example_bad_post = Inl (cannot_unmarshal ''array'')"
  by (simp_all add: ShouldBindJSON_def example_post_def trailing_post_def big_post_def
      even_post_def null_post_def example_bad_post_def example_params decode_120
      decode_2_53 decode_2_53_plus_1 makemap_def del: decode.simps(3))

lemma example_Marshal:
  \<open>json_Marshal (Some [(''ttl'', float_120)]) = Inr ''{"ttl":120}''\<close>
  \<open>json_Marshal (Some [(''ttl'', float_2_53)]) = Inr ''{"ttl":9007199254740992}''\<close>
  \<open>json_Marshal None = Inr ''null''\<close>
  by (simp_all add: json_Marshal_def encode_120 encode_2_53 appendString_ttl)

lemma example_entries:
  "entries (Some [(k, v)]) = [k \<mapsto> v]"
  "entries None = Map.empty"
  by (simp_all add: entries_def)

text \<open>The posts of the examples on a server without zones and with a healthy disk: the
  zone is created at address 0, the file is written and the zone is published.\<close>

lemma addZone_on_empty_world:
  assumes "ShouldBindJSON c = Inr objmap" and "M objmap = Inr bytes"
    and "Param c ''zone'' = ''example.com''"
  shows "addZone M example_server c empty_world =
     (\<lparr>status = 200,
       payload = [(''success'', JBool True),
                  (''result'', JString ''Zone created successfully'')]\<rparr>,
      \<lparr>heap = blank_heap
         (0 := \<lparr>zone_name = ''example.com'', document = entries objmap\<rparr>),
       next_addr = 1,
       zonelist = [(''example.com'', 0)],
       files = [''/zones/example.com.json'' \<mapsto> \<lparr>data = bytes, mode = 420\<rparr>],
       faults = Map.empty\<rparr>)"
  using assms by (simp add: addZone_defs example_server_def empty_world_def)

text \<open>Which bodies \<^verbatim>\<open>ShouldBindJSON\<close> rejects: those that do not begin with a JSON value,
  those whose first value is a boolean, a number, a string or an array, and the objects
  that hold a number outside \<^verbatim>\<open>float64\<close>. It accepts \<^verbatim>\<open>null\<close>, and it does not look at
  what follows the first value.\<close>

lemma ShouldBindJSON_rejects_iff:
  "(\<exists>err. ShouldBindJSON c = Inl err) \<longleftrightarrow>
     (case body c of
        NoValue err \<Rightarrow> True
      | Value v rest \<Rightarrow>
          (case v of
             VNull \<Rightarrow> False
           | VObject kvs \<Rightarrow> (\<exists>err. decode_fields kvs = Inl err)
           | _ \<Rightarrow> True))"
  by (simp add: ShouldBindJSON_def split: body.splits json_value.splits sum.splits)

lemma ShouldBindJSON_ignores_rest:
  "ShouldBindJSON (c\<lparr>body := Value v rest\<rparr>) = ShouldBindJSON (c\<lparr>body := Value v []\<rparr>)"
  by (simp add: ShouldBindJSON_def)

text \<open>The gate lets a request through exactly when the header starts with \<^verbatim>\<open>Bearer\<close> and
  what is left of it after every \<^verbatim>\<open>"Bearer "\<close> has been removed is the token.\<close>

lemma checkToken_passes_iff:
  "checkToken Token c = None \<longleftrightarrow>
     HasPrefix (GetHeader c ''Authorization'') ''Bearer'' \<and>
     strings_Replace_all (GetHeader c ''Authorization'') ''Bearer '' [] = Token"
  by (simp add: checkToken_def Let_def)

lemma checkToken_rejects_401:
  "checkToken Token c = Some r \<Longrightarrow> status r = 401"
  by (auto simp: checkToken_def Let_def JSON_def StatusUnauthorized_def split: if_splits)

lemma serve_unauthorized:
  "checkToken Token c = Some resp \<Longrightarrow> serve Token M hs r c w = (resp, w)"
  by (simp add: serve_def)

subsection \<open>The authorization gate\<close>

text \<open>C2. The claim: a request passes the gate if and only if its header has the
  \<^verbatim>\<open>Bearer\<close> prefix and the credential it presents is the configured token, for every token.
  The code removes every occurrence of \<^verbatim>\<open>"Bearer "\<close> from the header instead of the leading
  one. With the token \<^verbatim>\<open>my Bearer token\<close>, the header \<^verbatim>\<open>Bearer my Bearer token\<close> presents
  exactly the token and is answered 401; with the token \<^verbatim>\<open>ab\<close>, the header
  \<^verbatim>\<open>Bearer aBearer b\<close> presents another credential and passes.\<close>

theorem checkToken_strips_every_Bearer:
  "checkToken ''my Bearer token'' (with_Authorization ''Bearer my Bearer token'') =
     Some \<lparr>status = 401,
           payload = [(''success'', JBool False), (''error'', JString ''Unauthorized (401)'')]\<rparr>
   \<and> checkToken ''ab'' (with_Authorization ''Bearer aBearer b'') = None"
  by (simp add: checkToken_def with_Authorization_def GetHeader_def HasPrefix_def JSON_def
      StatusUnauthorized_def)

subsection \<open>List and Get\<close>

text \<open>C5. For every registry, List Zones answers 200 with success true and a list that
  holds exactly the names of the registry other than the reserved name \<^verbatim>\<open>pgeodns\<close>; the
  reserved name is never in the list, and the world is left as it was.\<close>

theorem getZones_lists_names:
  "\<exists>keys. getZones hs c w =
      (\<lparr>status = 200, payload = [(''success'', JBool True), (''result'', JStrings keys)]\<rparr>, w)
    \<and> set keys = fst ` set (zonelist w) - {''pgeodns''}
    \<and> ''pgeodns'' \<notin> set keys"
  by (auto simp: getZones_def Zones_def JSON_def StatusOK_def)

text \<open>C6. Get Zone answers 200 with success true and the zone object as it is in memory
  when the registry has the name, and 404 with success false and the error
  \<^verbatim>\<open>Zone not found\<close> when it has not. In both cases the world is left as it was, so the
  request can be repeated with the same answer.\<close>

theorem getZone_found_or_404:
  "(\<forall>zone. map_of (zonelist w) (Param c ''zone'') = Some zone \<longrightarrow>
       getZone hs c w =
         (\<lparr>status = 200,
           payload = [(''success'', JBool True), (''result'', JZone (heap w zone))]\<rparr>, w))
   \<and> (map_of (zonelist w) (Param c ''zone'') = None \<longrightarrow>
       getZone hs c w =
         (\<lparr>status = 404,
           payload = [(''success'', JBool False), (''error'', JString ''Zone not found'')]\<rparr>, w)
       \<and> getZone hs c (snd (getZone hs c w)) = getZone hs c w)"
  by (simp add: getZone_def Zones_def JSON_def StatusOK_def StatusNotFound_def)

text \<open>Both cases, on a registry that serves \<^verbatim>\<open>example.com\<close> and on an empty one.\<close>

theorem getZone_found_or_404_witness:
  "map_of (zonelist readonly_world) (Param example_get ''zone'') = Some 0
   \<and> getZone example_server example_get readonly_world =
       (\<lparr>status = 200,
         payload = [(''success'', JBool True),
           (''result'', JZone \<lparr>zone_name = ''example.com'', document = Map.empty\<rparr>)]\<rparr>,
        readonly_world)
   \<and> map_of (zonelist empty_world) (Param example_get ''zone'') = None
   \<and> getZone example_server example_get empty_world =
       (\<lparr>status = 404,
         payload = [(''success'', JBool False), (''error'', JString ''Zone not found'')]\<rparr>,
        empty_world)"
proof -
  have a: "map_of (zonelist readonly_world) (Param example_get ''zone'') = Some 0"
    by (simp add: example_zone readonly_world_def)
  have h: "heap readonly_world 0 = \<lparr>zone_name = ''example.com'', document = Map.empty\<rparr>"
    by (simp add: readonly_world_def)
  have b: "map_of (zonelist empty_world) (Param example_get ''zone'') = None"
    by (simp add: empty_world_def)
  from getZone_found_or_404 [of readonly_world example_get example_server]
    getZone_found_or_404 [of empty_world example_get example_server] a b h
  show ?thesis by simp
qed

subsection \<open>The shape of the responses\<close>

text \<open>C8. Whatever the request, the route and the world, the body of the response has a
  boolean \<^verbatim>\<open>success\<close> and exactly one of \<^verbatim>\<open>result\<close> and \<^verbatim>\<open>error\<close>: \<^verbatim>\<open>result\<close> when
  \<^verbatim>\<open>success\<close> is true, \<^verbatim>\<open>error\<close> when it is false. This covers the rejections of the gate
  and every branch of the three handlers.\<close>

theorem serve_envelope: "envelope (payload (fst (serve Token M hs r c w)))"
  by (simp add: serve_def checkToken_envelope getZones_envelope getZone_envelope
      addZone_envelope split: option.splits route.splits)

subsection \<open>Create-or-Replace\<close>

text \<open>C3, as amended. When \<^verbatim>\<open>ShouldBindJSON\<close> returns an error (the body does not begin
  with a JSON value, or its first value is a boolean, a number, a string or an array, or
  an object that holds a number outside \<^verbatim>\<open>float64\<close>), Create-or-Replace answers 400 with
  the decoder's message, the registry is as before (the same bindings, every zone object
  that existed unchanged, so that Get and List answer as before) and no file is touched.\<close>

theorem addZone_decode_failure:
  assumes "ShouldBindJSON c = Inl err" and "registry_ok w"
  shows "fst (addZone M hs c w) =
           \<lparr>status = 400, payload = [(''success'', JBool False), (''error'', JString err)]\<rparr>
       \<and> zonelist (snd (addZone M hs c w)) = zonelist w
       \<and> files (snd (addZone M hs c w)) = files w
       \<and> (\<forall>a<next_addr w. heap (snd (addZone M hs c w)) a = heap w a)
       \<and> (\<forall>c'. fst (getZone hs c' (snd (addZone M hs c w))) = fst (getZone hs c' w)
              \<and> fst (getZones hs c' (snd (addZone M hs c w))) = fst (getZones hs c' w))"
proof -
  let ?w' = "snd (addZone M hs c w)"
  have r: "fst (addZone M hs c w) =
           \<lparr>status = 400, payload = [(''success'', JBool False), (''error'', JString err)]\<rparr>"
    using assms(1) by (simp add: addZone_defs split: option.splits prod.splits)
  have z: "zonelist ?w' = zonelist w"
    using assms(1) by (simp add: addZone_defs split: option.splits)
  have f: "files ?w' = files w"
    using assms(1) by (simp add: addZone_defs split: option.splits)
  have h: "\<forall>a<next_addr w. heap ?w' a = heap w a"
    using assms(1) by (simp add: addZone_defs split: option.splits)
  have "fst (getZone hs c' ?w') = fst (getZone hs c' w)" for c'
    using z h registry_ok_lookup [OF assms(2)] by (intro getZone_same) auto
  with r z f h getZones_same [OF z] show ?thesis by blast
qed

text \<open>A JSON array posted to a zone that is being served.\<close>

theorem addZone_decode_failure_witness:
  "ShouldBindJSON example_bad_post =
     Inl ''json: cannot unmarshal array into Go value of type map[string]interface {}''
   \<and> registry_ok readonly_world
   \<and> fst (addZone json_Marshal example_server example_bad_post readonly_world) =
       \<lparr>status = 400,
        payload = [(''success'', JBool False),
          (''error'', JString
            ''json: cannot unmarshal array into Go value of type map[string]interface {}'')]\<rparr>
   \<and> zonelist (snd (addZone json_Marshal example_server example_bad_post readonly_world)) =
       [(''example.com'', 0)]
   \<and> files (snd (addZone json_Marshal example_server example_bad_post readonly_world)) =
       Map.empty
   \<and> fst (getZone example_server example_get
        (snd (addZone json_Marshal example_server example_bad_post readonly_world))) =
       \<lparr>status = 200,
        payload = [(''success'', JBool True),
          (''result'', JZone \<lparr>zone_name = ''example.com'', document = Map.empty\<rparr>)]\<rparr>"
proof -
  have b: "ShouldBindJSON example_bad_post =
     Inl ''json: cannot unmarshal array into Go value of type map[string]interface {}''"
    by (simp add: example_binds cannot_unmarshal_def)
  have ok: "registry_ok readonly_world"
    by (simp add: registry_ok_def readonly_world_def)
  have g: "fst (getZone example_server example_get readonly_world) =
       \<lparr>status = 200,
        payload = [(''success'', JBool True),
          (''result'', JZone \<lparr>zone_name = ''example.com'', document = Map.empty\<rparr>)]\<rparr>"
    by (simp add: getZone_def example_zone readonly_world_def Zones_def JSON_def
        StatusOK_def)
  from addZone_decode_failure [OF b ok, of json_Marshal example_server] b ok g
  show ?thesis by (simp add: readonly_world_def)
qed

text \<open>C3, as claimed, says that a body whose top level is not an object is answered 400
  and changes nothing. It fails for the body \<^verbatim>\<open>null\<close>, which the decoder stores as a nil
  map without an error: the post is answered 200, the file is written with the text
  \<^verbatim>\<open>null\<close> and the zone is published. It fails as well for a body that is malformed after
  its first value, which the decoder does not read: \<^verbatim>\<open>{"ttl":120}]]] not json\<close> is answered
  200 and written as \<^verbatim>\<open>{"ttl":120}\<close>.\<close>

theorem addZone_decode_counterexample:
  \<open>body null_post = Value VNull []
   \<and> addZone json_Marshal example_server null_post empty_world =
       (\<lparr>status = 200,
        payload = [(''success'', JBool True),
                   (''result'', JString ''Zone created successfully'')]\<rparr>,
        \<lparr>heap = blank_heap(0 := \<lparr>zone_name = ''example.com'', document = Map.empty\<rparr>),
         next_addr = 1,
         zonelist = [(''example.com'', 0)],
         files = [''/zones/example.com.json'' \<mapsto> \<lparr>data = ''null'', mode = 420\<rparr>],
         faults = Map.empty\<rparr>)
   \<and> body trailing_post = Value (VObject [(''ttl'', VNumber ''120'')]) '']]] not json''
   \<and> addZone json_Marshal example_server trailing_post empty_world =
       (\<lparr>status = 200,
        payload = [(''success'', JBool True),
                   (''result'', JString ''Zone created successfully'')]\<rparr>,
        \<lparr>heap = blank_heap
           (0 := \<lparr>zone_name = ''example.com'', document = [''ttl'' \<mapsto> float_120]\<rparr>),
         next_addr = 1,
         zonelist = [(''example.com'', 0)],
         files = [''/zones/example.com.json'' \<mapsto> \<lparr>data = ''{"ttl":120}'', mode = 420\<rparr>],
         faults = Map.empty\<rparr>)\<close>
proof -
  note a = addZone_on_empty_world [where M = json_Marshal,
      OF example_binds(5) example_Marshal(3) example_zone(3), unfolded example_entries]
  note b = addZone_on_empty_world [where M = json_Marshal,
      OF example_binds(2) example_Marshal(1) example_zone(4), unfolded example_entries]
  have c: "body null_post = Value VNull []"
    "body trailing_post = Value (VObject [(''ttl'', VNumber ''120'')]) '']]] not json''"
    by (simp_all add: null_post_def trailing_post_def example_params)
  from a b c show ?thesis by simp
qed





text \<open>C1, as amended. When the write fails, Create-or-Replace answers 400 with the
  error of the write and does not call \<^verbatim>\<open>AddHandler\<close>: the bindings of the registry are
  as before, every zone object other than one the registry already had under the name of
  the request is unchanged, and no file other than the one of the request is touched. When
  the registry did not have the name, Get and List answer after the request as before.\<close>

theorem addZone_write_failure:
  assumes "ShouldBindJSON c = Inr objmap" and "M objmap = Inr bytes"
    and "faults w (zonePath hs @ Param c ''zone'' @ ''.json'') = Some f"
  shows "fst (addZone M hs c w) =
           \<lparr>status = 400,
            payload = [(''success'', JBool False), (''error'', JString (fault_message f))]\<rparr>
       \<and> zonelist (snd (addZone M hs c w)) = zonelist w
       \<and> (\<forall>a<next_addr w. map_of (zonelist w) (Param c ''zone'') \<noteq> Some a \<longrightarrow>
              heap (snd (addZone M hs c w)) a = heap w a)
       \<and> (\<forall>p. p \<noteq> zonePath hs @ Param c ''zone'' @ ''.json'' \<longrightarrow>
              files (snd (addZone M hs c w)) p = files w p)
       \<and> (registry_ok w \<and> map_of (zonelist w) (Param c ''zone'') = None \<longrightarrow>
            (\<forall>c'. fst (getZone hs c' (snd (addZone M hs c w))) = fst (getZone hs c' w)
                 \<and> fst (getZones hs c' (snd (addZone M hs c w))) = fst (getZones hs c' w)))"
proof -
  let ?w' = "snd (addZone M hs c w)"
  have r: "fst (addZone M hs c w) =
           \<lparr>status = 400,
            payload = [(''success'', JBool False), (''error'', JString (fault_message f))]\<rparr>"
    using assms by (cases f) (simp_all add: addZone_defs split: option.splits prod.splits)
  have z: "zonelist ?w' = zonelist w"
    using assms by (cases f) (simp_all add: addZone_defs split: option.splits prod.splits)
  have h: "\<forall>a<next_addr w. map_of (zonelist w) (Param c ''zone'') \<noteq> Some a \<longrightarrow>
              heap ?w' a = heap w a"
    using assms by (cases f) (auto simp add: addZone_defs split: option.splits prod.splits)
  have fl: "\<forall>p. p \<noteq> zonePath hs @ Param c ''zone'' @ ''.json'' \<longrightarrow> files ?w' p = files w p"
    using assms by (cases f) (simp_all add: addZone_defs split: option.splits prod.splits)
  have g: "fst (getZone hs c' ?w') = fst (getZone hs c' w)"
    if "registry_ok w" "map_of (zonelist w) (Param c ''zone'') = None" for c'
  proof (rule getZone_same [OF z])
    fix name a assume "map_of (zonelist w) name = Some a"
    with that h registry_ok_lookup [OF that(1)] show "heap ?w' a = heap w a" by auto
  qed
  from r z h fl g getZones_same [OF z] show ?thesis by blast
qed

text \<open>A post for a new zone on a full disk.\<close>

theorem addZone_write_failure_witness:
  \<open>ShouldBindJSON example_post = Inr (Some [(''ttl'', float_120)])
   \<and> json_Marshal (Some [(''ttl'', float_120)]) = Inr ''{"ttl":120}''
   \<and> faults full_disk_world (zonePath example_server @ Param example_post ''zone'' @ ''.json'') =
       Some (WriteError 0 ''no space left on device'')
   \<and> registry_ok full_disk_world
   \<and> map_of (zonelist full_disk_world) (Param example_post ''zone'') = None
   \<and> fst (addZone json_Marshal example_server example_post full_disk_world) =
       \<lparr>status = 400,
        payload = [(''success'', JBool False), (''error'', JString ''no space left on device'')]\<rparr>
   \<and> zonelist (snd (addZone json_Marshal example_server example_post full_disk_world)) = []
   \<and> fst (getZone example_server example_get
        (snd (addZone json_Marshal example_server example_post full_disk_world))) =
       \<lparr>status = 404,
        payload = [(''success'', JBool False), (''error'', JString ''Zone not found'')]\<rparr>\<close>
proof -
  note m = example_Marshal(1)
  have f: "faults full_disk_world
       (zonePath example_server @ Param example_post ''zone'' @ ''.json'') =
       Some (WriteError 0 ''no space left on device'')"
    by (simp add: full_disk_world_def example_server_def example_zone)
  have ok: "registry_ok full_disk_world"
    by (simp add: registry_ok_def full_disk_world_def)
  have n: "map_of (zonelist full_disk_world) (Param example_post ''zone'') = None"
    by (simp add: full_disk_world_def)
  have g: "fst (getZone example_server example_get full_disk_world) =
       \<lparr>status = 404,
        payload = [(''success'', JBool False), (''error'', JString ''Zone not found'')]\<rparr>"
    by (simp add: getZone_def Zones_def full_disk_world_def JSON_def StatusNotFound_def)
  have z: "zonelist full_disk_world = []"
    by (simp add: full_disk_world_def)
  from addZone_write_failure [where c = example_post and M = json_Marshal
      and w = full_disk_world and hs = example_server, OF example_binds(1) m f] ok n g z
    example_binds(1) m f
  show ?thesis by simp
qed

text \<open>C1, as claimed, says that after a failed write the registry shows no zone without
  a durable copy, also when the name was in the registry before. It fails there: the
  handler has updated the object the registry points to before it writes. The zone
  \<^verbatim>\<open>example.com\<close> is served with an empty document and its file cannot be opened; the post
  is answered 400, the disk is empty afterwards, and Get shows the posted document.\<close>

theorem addZone_write_failure_counterexample:
  "status (fst (addZone json_Marshal example_server example_post readonly_world)) = 400
   \<and> files (snd (addZone json_Marshal example_server example_post readonly_world)) = Map.empty
   \<and> fst (getZone example_server example_get readonly_world) =
       \<lparr>status = 200,
        payload = [(''success'', JBool True),
          (''result'', JZone \<lparr>zone_name = ''example.com'', document = Map.empty\<rparr>)]\<rparr>
   \<and> fst (getZone example_server example_get
        (snd (addZone json_Marshal example_server example_post readonly_world))) =
       \<lparr>status = 200,
        payload = [(''success'', JBool True),
          (''result'', JZone \<lparr>zone_name = ''example.com'',
                              document = [''ttl'' \<mapsto> float_120]\<rparr>)]\<rparr>
   \<and> fst (getZone example_server example_get
        (snd (addZone json_Marshal example_server example_post readonly_world))) \<noteq>
       fst (getZone example_server example_get readonly_world)"
proof -
  have a: "addZone json_Marshal example_server example_post readonly_world =
     (\<lparr>status = 400,
       payload = [(''success'', JBool False), (''error'', JString ''permission denied'')]\<rparr>,
      readonly_world\<lparr>heap := (heap readonly_world)
        (0 := \<lparr>zone_name = ''example.com'', document = [''ttl'' \<mapsto> float_120]\<rparr>)\<rparr>)"
    by (simp add: addZone_defs example_zone example_binds example_Marshal example_entries
        example_server_def readonly_world_def)
  have "[''ttl'' \<mapsto> float_120] \<noteq> (Map.empty :: string \<rightharpoonup> interface)"
    by simp
  then show ?thesis
    unfolding a
    by (simp add: getZone_def Zones_def JSON_def StatusOK_def example_zone
        readonly_world_def)
qed

text \<open>C7. Posting the same document twice to the same name, on a world that
  meets the registry's invariant and whose disk behaves the same way for both posts: the
  second post gets the same answer as the first and leaves the same files, the same
  registry bindings and the same answers of Get and List as the first.\<close>

theorem addZone_idempotent:
  assumes "ShouldBindJSON c = Inr objmap" and "registry_ok w"
  shows "fst (addZone M hs c (snd (addZone M hs c w))) = fst (addZone M hs c w)
       \<and> files (snd (addZone M hs c (snd (addZone M hs c w)))) = files (snd (addZone M hs c w))
       \<and> zonelist (snd (addZone M hs c (snd (addZone M hs c w)))) =
           zonelist (snd (addZone M hs c w))
       \<and> (\<forall>c'. fst (getZone hs c' (snd (addZone M hs c (snd (addZone M hs c w))))) =
                 fst (getZone hs c' (snd (addZone M hs c w)))
              \<and> fst (getZones hs c' (snd (addZone M hs c (snd (addZone M hs c w))))) =
                 fst (getZones hs c' (snd (addZone M hs c w))))"
proof -
  let ?w1 = "snd (addZone M hs c w)"
  let ?w2 = "snd (addZone M hs c ?w1)"
  consider (fixed) "addZone M hs c ?w1 = addZone M hs c w"
    | (garbage) "map_of (zonelist w) (Param c ''zone'') = None"
        "status (fst (addZone M hs c w)) \<noteq> 200"
    using addZone_again_present [OF assms(1)] addZone_again_created [OF assms(1)]
    by (cases "map_of (zonelist w) (Param c ''zone'')") blast+
  then show ?thesis
  proof cases
    case fixed
    then show ?thesis by simp
  next
    case garbage
    note eqs = addZone_again_absent [OF assms(1) garbage]
    from eqs have z: "zonelist ?w2 = zonelist ?w1" by simp
    have "fst (getZone hs c' ?w2) = fst (getZone hs c' ?w1)" for c'
    proof (rule getZone_same [OF z])
      fix name a assume "map_of (zonelist ?w1) name = Some a"
      with eqs have "a < next_addr w" using registry_ok_lookup [OF assms(2)] by simp
      with eqs show "heap ?w2 a = heap ?w1 a" by blast
    qed
    with eqs z getZones_same [OF z] show ?thesis by blast
  qed
qed

text \<open>The post of the examples, twice, on a server without zones.\<close>

theorem addZone_idempotent_witness:
  \<open>ShouldBindJSON example_post = Inr (Some [(''ttl'', float_120)])
   \<and> registry_ok empty_world
   \<and> fst (addZone json_Marshal example_server example_post
        (snd (addZone json_Marshal example_server example_post empty_world))) =
       \<lparr>status = 200,
        payload = [(''success'', JBool True),
                   (''result'', JString ''Zone created successfully'')]\<rparr>
   \<and> files (snd (addZone json_Marshal example_server example_post
        (snd (addZone json_Marshal example_server example_post empty_world)))) =
       [''/zones/example.com.json'' \<mapsto> \<lparr>data = ''{"ttl":120}'', mode = 420\<rparr>]
   \<and> fst (getZone example_server example_get
        (snd (addZone json_Marshal example_server example_post
          (snd (addZone json_Marshal example_server example_post empty_world))))) =
       \<lparr>status = 200,
        payload = [(''success'', JBool True),
          (''result'', JZone \<lparr>zone_name = ''example.com'',
                              document = [''ttl'' \<mapsto> float_120]\<rparr>)]\<rparr>\<close>
proof -
  note a = addZone_on_empty_world [where M = json_Marshal, OF example_binds(1) example_Marshal(1) example_zone(1)]
  note t = addZone_idempotent [where M = json_Marshal and hs = example_server
      and w = empty_world, OF example_binds(1) registry_ok_empty_world]
  from t have g: "fst (getZone example_server example_get
        (snd (addZone json_Marshal example_server example_post
          (snd (addZone json_Marshal example_server example_post empty_world))))) =
      fst (getZone example_server example_get
        (snd (addZone json_Marshal example_server example_post empty_world)))"
    by blast
  have g1: "fst (getZone example_server example_get
        (snd (addZone json_Marshal example_server example_post empty_world))) =
       \<lparr>status = 200,
        payload = [(''success'', JBool True),
          (''result'', JZone \<lparr>zone_name = ''example.com'',
                              document = [''ttl'' \<mapsto> float_120]\<rparr>)]\<rparr>"
    unfolding a
    by (simp add: getZone_def Zones_def JSON_def StatusOK_def example_zone example_entries)
  have f1: \<open>files (snd (addZone json_Marshal example_server example_post empty_world)) =
       [''/zones/example.com.json'' \<mapsto> \<lparr>data = ''{"ttl":120}'', mode = 420\<rparr>]\<close>
    unfolding a by simp
  have r1: "fst (addZone json_Marshal example_server example_post empty_world) =
       \<lparr>status = 200,
        payload = [(''success'', JBool True),
                   (''result'', JString ''Zone created successfully'')]\<rparr>"
    unfolding a by simp
  from t g g1 f1 r1 example_binds(1) registry_ok_empty_world
  show ?thesis by simp
qed

text \<open>C10. The file Create-or-Replace writes is the one whose path is the configured
  storage path, the zone name and \<^verbatim>\<open>.json\<close>, in this order with nothing in between: no
  other path of the file system changes. When the write succeeds the file holds the
  marshalled bytes; a file that did not exist is created with mode \<^verbatim>\<open>0644\<close> (420), one that
  existed keeps its mode, as \<^verbatim>\<open>os.WriteFile\<close> does.\<close>

theorem addZone_file_path_and_mode:
  assumes "ShouldBindJSON c = Inr objmap" and "M objmap = Inr bytes"
  shows "(\<forall>p. p \<noteq> zonePath hs @ Param c ''zone'' @ ''.json'' \<longrightarrow>
            files (snd (addZone M hs c w)) p = files w p)
       \<and> (faults w (zonePath hs @ Param c ''zone'' @ ''.json'') = None \<longrightarrow>
            files (snd (addZone M hs c w)) (zonePath hs @ Param c ''zone'' @ ''.json'') =
              Some \<lparr>data = bytes,
                    mode = (case files w (zonePath hs @ Param c ''zone'' @ ''.json'') of
                              None \<Rightarrow> 420 | Some f \<Rightarrow> mode f)\<rparr>)"
  using assms
  by (auto simp add: addZone_defs split: option.splits prod.splits sum.splits fault.splits)

text \<open>With the storage path \<^verbatim>\<open>/zones\<close> the zone \<^verbatim>\<open>example.com\<close> is written to
  \<^verbatim>\<open>/zonesexample.com.json\<close>, and \<^verbatim>\<open>/zones/example.com.json\<close> does not exist.\<close>

theorem addZone_file_path_and_mode_witness:
  \<open>ShouldBindJSON example_post = Inr (Some [(''ttl'', float_120)])
   \<and> json_Marshal (Some [(''ttl'', float_120)]) = Inr ''{"ttl":120}''
   \<and> faults empty_world ''/zonesexample.com.json'' = None
   \<and> files (snd (addZone json_Marshal example_server_no_slash example_post empty_world))
         ''/zonesexample.com.json'' = Some \<lparr>data = ''{"ttl":120}'', mode = 420\<rparr>
   \<and> files (snd (addZone json_Marshal example_server_no_slash example_post empty_world))
         ''/zones/example.com.json'' = None\<close>
proof -
  have p: "zonePath example_server_no_slash @ Param example_post ''zone'' @ ''.json'' =
      ''/zonesexample.com.json''"
    by (simp add: example_server_no_slash_def example_zone)
  have e: "files empty_world = Map.empty" "faults empty_world = Map.empty"
    by (simp_all add: empty_world_def)
  note t = addZone_file_path_and_mode [where M = json_Marshal
      and hs = example_server_no_slash and w = empty_world,
      OF example_binds(1) example_Marshal(1), unfolded p]
  from t have "files (snd (addZone json_Marshal example_server_no_slash example_post
      empty_world)) ''/zones/example.com.json'' = files empty_world ''/zones/example.com.json''"
    by simp
  with t show ?thesis
    by (simp add: e example_binds example_Marshal)
qed

subsection \<open>Shutdown\<close>




end
